theory Spec2Isabelle
  imports Complex_Main "HOL-Library.List_Lexorder" "HOL-Library.Char_ord" "HOL-Library.Multiset"
begin

section \<open>Exceptions\<close>

text \<open>
  Every exception the modelled code can raise is a value. \<open>HTTPError\<close> carries the status
  code; \<open>ConnectionError\<close> stands for what \<open>session.request\<close> itself raises; \<open>Failed n\<close>
  is the plain \<open>Exception\<close> raised after the retry loop of \<open>_make_request_with_retry\<close>
  has run through all \<open>n\<close> attempts. \<open>is_RequestException\<close> tells, of the exceptions
  that can be raised inside the \<open>try\<close> block of that loop, which ones its handler for
  \<open>requests.exceptions.RequestException\<close> catches.
\<close>

datatype error =
    ValueError
  | TypeError
  | JSONDecodeError
  | HTTPError nat
  | ConnectionError
  | Failed int

fun is_RequestException :: "error \<Rightarrow> bool" where
  "is_RequestException (HTTPError c) = True"
| "is_RequestException ConnectionError = True"
| "is_RequestException e = False"

section \<open>Timestamps\<close>

text \<open>
  A Python \<open>datetime\<close>: \<open>wall\<close> is the value of its calendar fields, in microseconds since
  0001-01-01T00:00:00; \<open>tzinfo\<close> is the UTC offset in microseconds of an aware value and
  \<open>None\<close> for a naive one. A \<open>timedelta\<close> is a number of microseconds.
\<close>

datatype datetime = Datetime (wall: int) (tzinfo: "int option")

text \<open>\<open>a - b\<close> on datetimes: mixing a naive and an aware value raises \<open>TypeError\<close>.\<close>

fun dt_sub :: "datetime \<Rightarrow> datetime \<Rightarrow> error + int" where
  "dt_sub (Datetime a None) (Datetime b None) = Inr (a - b)"
| "dt_sub (Datetime a (Some oa)) (Datetime b (Some ob)) = Inr ((a - oa) - (b - ob))"
| "dt_sub a b = Inl TypeError"


text \<open>\<open>td.total_seconds() / 3600\<close>, with float arithmetic idealised as exact.\<close>

definition hours :: "int \<Rightarrow> real" where
  "hours td = real_of_int td / 1000000 / 3600"

text \<open>
  The two library parsers \<open>datetime.strptime\<close> (string, format) and
  \<open>datetime.fromisoformat\<close> are parameters of the model; \<open>None\<close> is their \<open>ValueError\<close>.
\<close>

record pylib =
  strptime :: "string \<Rightarrow> string \<Rightarrow> datetime option"
  fromisoformat :: "string \<Rightarrow> datetime option"

text \<open>The wall clock read by \<open>datetime.now(tz)\<close>: the current UTC instant and the
  offset of the system's local time zone, both in microseconds.\<close>

record clock =
  utcnow :: int
  local_offset :: int

definition datetime_now :: "clock \<Rightarrow> int option \<Rightarrow> datetime" where
  "datetime_now clk tz =
     (case tz of
        None \<Rightarrow> Datetime (utcnow clk + local_offset clk) None
      | Some off \<Rightarrow> Datetime (utcnow clk + off) (Some off))"

definition strip_timezone :: "string \<Rightarrow> string" where
  "strip_timezone date_str =
     (if CHR ''+'' \<in> set date_str then takeWhile (\<lambda>c. c \<noteq> CHR ''+'') date_str
      else if CHR ''Z'' \<in> set date_str then filter (\<lambda>c. c \<noteq> CHR ''Z'') date_str
      else date_str)"

definition parse_datetime :: "pylib \<Rightarrow> string \<Rightarrow> error + datetime" where
  "parse_datetime lib date_str =
     (case strptime lib date_str ''%Y-%m-%dT%H:%M:%S.%f%z'' of
        Some d \<Rightarrow> Inr d
      | None \<Rightarrow>
         (case strptime lib date_str ''%Y-%m-%dT%H:%M:%S%z'' of
            Some d \<Rightarrow> Inr d
          | None \<Rightarrow>
             (case fromisoformat lib (strip_timezone date_str) of
                Some d \<Rightarrow> Inr d
              | None \<Rightarrow> Inl ValueError)))"

section \<open>Issues as returned by the tracker\<close>

text \<open>
  The JSON of an issue, with the keys the code reads. Keys read with \<open>d[k]\<close> are plain
  fields; keys read with \<open>d.get(k)\<close> are optional. A missing \<open>changelog\<close> or
  \<open>histories\<close> key is the empty list, as \<open>.get(k, default)\<close> makes it.
\<close>

record item =
  field :: string
  fromString :: "string option"
  toString :: "string option"

record history =
  created :: string
  items :: "item list"

record issue =
  key :: string
  summary :: string
  status_name :: string
  fields_created :: string
  resolutiondate :: "string option"
  assignee :: "string option"
  priority :: "string option"
  issuetype :: "string option"
  histories :: "history list"

section \<open>Changelog replay: \<open>calculate_cycle_time\<close>\<close>

record status_change =
  date :: datetime
  from_status :: "string option"
  to_status :: "string option"

record status_period =
  p_status :: string
  p_start :: datetime
  p_end :: datetime
  duration_hours :: real

text \<open>The inner loop over one changelog entry: its timestamp is parsed once, and every
  item whose field is \<open>status\<close> becomes a status change carrying that timestamp.\<close>

definition history_changes :: "pylib \<Rightarrow> history \<Rightarrow> error + status_change list" where
  "history_changes lib h =
     (case parse_datetime lib (created h) of
        Inl e \<Rightarrow> Inl e
      | Inr change_date \<Rightarrow>
          Inr (map (\<lambda>it. \<lparr>date = change_date, from_status = fromString it,
                          to_status = toString it\<rparr>)
                   (filter (\<lambda>it. field it = ''status'') (items h))))"

fun collect_changes :: "pylib \<Rightarrow> history list \<Rightarrow> error + status_change list" where
  "collect_changes lib [] = Inr []"
| "collect_changes lib (h # hs) =
     (case history_changes lib h of
        Inl e \<Rightarrow> Inl e
      | Inr cs \<Rightarrow>
         (case collect_changes lib hs of
            Inl e \<Rightarrow> Inl e
          | Inr rest \<Rightarrow> Inr (cs @ rest)))"

text \<open>\<open>sorted(histories, key=lambda x: x['created'])\<close>: a stable sort on the raw
  \<open>created\<close> strings, compared as Python compares strings.\<close>

definition sorted_histories :: "history list \<Rightarrow> history list" where
  "sorted_histories hs = sort_key created hs"

definition status_changes :: "pylib \<Rightarrow> history list \<Rightarrow> error + status_change list" where
  "status_changes lib hs = collect_changes lib (sorted_histories hs)"

record replay_state =
  total_cycle_time :: real
  status_periods :: "status_period list"
  current_cycle_start :: "datetime option"

text \<open>\<open>x in self.cycle_time_statuses\<close> for a value that may be \<open>None\<close>.\<close>

fun in_cycle :: "string set \<Rightarrow> string option \<Rightarrow> bool" where
  "in_cycle S None = False"
| "in_cycle S (Some s) = (s \<in> S)"

text \<open>First guarded transition of the loop body: leaving a cycle-time status.\<close>

definition leave_status :: "string set \<Rightarrow> replay_state \<Rightarrow> status_change \<Rightarrow> error + replay_state" where
  "leave_status S st change =
     (case (from_status change, current_cycle_start st) of
        (Some f, Some cycle_start) \<Rightarrow>
          if f \<in> S then
            (case dt_sub (date change) cycle_start of
               Inl e \<Rightarrow> Inl e
             | Inr td \<Rightarrow>
                 Inr \<lparr>total_cycle_time = total_cycle_time st + hours td,
                      status_periods = status_periods st @
                        [\<lparr>p_status = f, p_start = cycle_start, p_end = date change,
                          duration_hours = hours td\<rparr>],
                      current_cycle_start = None\<rparr>)
          else Inr st
      | _ \<Rightarrow> Inr st)"

text \<open>Second guarded transition: entering a cycle-time status.\<close>

definition enter_status :: "string set \<Rightarrow> replay_state \<Rightarrow> status_change \<Rightarrow> replay_state" where
  "enter_status S st change =
     (if in_cycle S (to_status change)
      then st\<lparr>current_cycle_start := Some (date change)\<rparr> else st)"

definition step :: "string set \<Rightarrow> replay_state \<Rightarrow> status_change \<Rightarrow> error + replay_state" where
  "step S st change =
     (case leave_status S st change of
        Inl e \<Rightarrow> Inl e
      | Inr st' \<Rightarrow> Inr (enter_status S st' change))"

fun walk :: "string set \<Rightarrow> replay_state \<Rightarrow> status_change list \<Rightarrow> error + replay_state" where
  "walk S st [] = Inr st"
| "walk S st (change # changes) =
     (case step S st change of
        Inl e \<Rightarrow> Inl e
      | Inr st' \<Rightarrow> walk S st' changes)"

text \<open>The state before the loop: the cycle starts at creation when the first status
  change leads into a cycle-time status.\<close>

definition initial_state :: "string set \<Rightarrow> datetime \<Rightarrow> status_change list \<Rightarrow> replay_state" where
  "initial_state S created_date changes =
     \<lparr>total_cycle_time = 0, status_periods = [],
      current_cycle_start =
        (case changes of
           [] \<Rightarrow> None
         | c # cs \<Rightarrow> if in_cycle S (to_status c) then Some created_date else None)\<rparr>"

text \<open>Everything up to the end of the loop over the status changes, for an issue with a
  non-empty changelog.\<close>

definition replay_walk :: "pylib \<Rightarrow> string set \<Rightarrow> issue \<Rightarrow> error + replay_state" where
  "replay_walk lib S issue =
     (case parse_datetime lib (fields_created issue) of
        Inl e \<Rightarrow> Inl e
      | Inr created_date \<Rightarrow>
         (case status_changes lib (histories issue) of
            Inl e \<Rightarrow> Inl e
          | Inr changes \<Rightarrow> walk S (initial_state S created_date changes) changes))"

text \<open>The end of the final period: \<open>resolutiondate\<close> when it is there and not empty,
  the clock otherwise.\<close>

definition end_date :: "pylib \<Rightarrow> clock \<Rightarrow> issue \<Rightarrow> datetime \<Rightarrow> error + datetime" where
  "end_date lib clk issue cycle_start =
     (case resolutiondate issue of
        None \<Rightarrow> Inr (datetime_now clk (tzinfo cycle_start))
      | Some r \<Rightarrow>
          if r = [] then Inr (datetime_now clk (tzinfo cycle_start))
          else parse_datetime lib r)"

text \<open>The code after the loop: the issue is still in a cycle-time status.\<close>

definition close_open :: "pylib \<Rightarrow> clock \<Rightarrow> string set \<Rightarrow> issue \<Rightarrow> replay_state \<Rightarrow>
    error + real \<times> status_period list" where
  "close_open lib clk S issue st =
     (case current_cycle_start st of
        None \<Rightarrow> Inr (total_cycle_time st, status_periods st)
      | Some cycle_start \<Rightarrow>
          if status_name issue \<in> S then
            (case end_date lib clk issue cycle_start of
               Inl e \<Rightarrow> Inl e
             | Inr e_date \<Rightarrow>
                (case dt_sub e_date cycle_start of
                   Inl e \<Rightarrow> Inl e
                 | Inr td \<Rightarrow>
                     Inr (total_cycle_time st + hours td,
                          status_periods st @
                            [\<lparr>p_status = status_name issue, p_start = cycle_start,
                              p_end = e_date, duration_hours = hours td\<rparr>])))
          else Inr (total_cycle_time st, status_periods st))"

definition calculate_cycle_time :: "pylib \<Rightarrow> clock \<Rightarrow> string set \<Rightarrow> issue \<Rightarrow>
    error + real \<times> status_period list" where
  "calculate_cycle_time lib clk S issue =
     (if histories issue = [] then Inr (0, [])
      else (case replay_walk lib S issue of
              Inl e \<Rightarrow> Inl e
            | Inr st \<Rightarrow> close_open lib clk S issue st))"

subsection \<open>The order of the status changes, stated on the flattened list\<close>






section \<open>A reference instance of the library parsers\<close>

text \<open>
  For evaluating the model on concrete issues: \<open>ref_strptime\<close> and \<open>ref_fromisoformat\<close>
  agree with CPython on the fixed-width timestamps the tracker emits
  (\<open>2023-10-29T02:30:00.000+0200\<close>, with or without the fraction, and the naive forms
  without an offset) and reject every other string. The calendar arithmetic is that of
  \<open>datetime.toordinal\<close>.
\<close>

definition digit_val :: "char \<Rightarrow> int option" where
  "digit_val c = (let n = (of_char c :: int) in if 48 \<le> n \<and> n \<le> 57 then Some (n - 48) else None)"

fun digits :: "string \<Rightarrow> int \<Rightarrow> int option" where
  "digits [] acc = Some acc"
| "digits (c # cs) acc = (case digit_val c of None \<Rightarrow> None | Some d \<Rightarrow> digits cs (10 * acc + d))"

definition num :: "string \<Rightarrow> int option" where
  "num s = (if s = [] then None else digits s 0)"

definition is_leap :: "int \<Rightarrow> bool" where
  "is_leap y = (y mod 4 = 0 \<and> (y mod 100 \<noteq> 0 \<or> y mod 400 = 0))"

definition days_in_month :: "int \<Rightarrow> int \<Rightarrow> int" where
  "days_in_month y m =
     (if m = 2 then (if is_leap y then 29 else 28)
      else if m = 4 \<or> m = 6 \<or> m = 9 \<or> m = 11 then 30 else 31)"

definition days_before_year :: "int \<Rightarrow> int" where
  "days_before_year y = (y - 1) * 365 + (y - 1) div 4 - (y - 1) div 100 + (y - 1) div 400"

definition days_before_month :: "int \<Rightarrow> int \<Rightarrow> int" where
  "days_before_month y m = sum_list (map (days_in_month y) [1..m - 1])"

definition ymd2ord :: "int \<Rightarrow> int \<Rightarrow> int \<Rightarrow> int" where
  "ymd2ord y m d = days_before_year y + days_before_month y m + d"

definition wall_of :: "int \<Rightarrow> int \<Rightarrow> int \<Rightarrow> int \<Rightarrow> int \<Rightarrow> int \<Rightarrow> int \<Rightarrow> int" where
  "wall_of y m d hh mi ss us =
     ((((ymd2ord y m d - 1) * 24 + hh) * 60 + mi) * 60 + ss) * 1000000 + us"

definition naive_fields :: "string \<Rightarrow> int \<Rightarrow> int option" where
  "naive_fields s us =
     (case s of
        [y1, y2, y3, y4, a, m1, m2, b, d1, d2, t, h1, h2, c, i1, i2, d, s1, s2] \<Rightarrow>
          if a = CHR ''-'' \<and> b = CHR ''-'' \<and> t = CHR ''T'' \<and> c = CHR '':'' \<and> d = CHR '':'' then
            (case (num [y1, y2, y3, y4], num [m1, m2], num [d1, d2],
                   num [h1, h2], num [i1, i2], num [s1, s2]) of
               (Some y, Some m, Some d, Some hh, Some mi, Some ss) \<Rightarrow>
                 if 1 \<le> y \<and> 1 \<le> m \<and> m \<le> 12 \<and> 1 \<le> d \<and> d \<le> days_in_month y m
                    \<and> hh < 24 \<and> mi < 60 \<and> ss < 60
                 then Some (wall_of y m d hh mi ss us) else None
             | _ \<Rightarrow> None)
          else None
      | _ \<Rightarrow> None)"

definition utc_offset :: "string \<Rightarrow> int option" where
  "utc_offset z =
     (case z of
        [sg, h1, h2, m1, m2] \<Rightarrow>
          if sg = CHR ''+'' \<or> sg = CHR ''-'' then
            (case (num [h1, h2], num [m1, m2]) of
               (Some hh, Some mi) \<Rightarrow>
                 if hh < 24 \<and> mi < 60 then
                   Some ((if sg = CHR ''-'' then - 1 else 1) * ((hh * 3600 + mi * 60) * 1000000))
                 else None
             | _ \<Rightarrow> None)
          else None
      | _ \<Rightarrow> None)"

definition microsecond :: "string \<Rightarrow> int option" where
  "microsecond f =
     (if 1 \<le> length f \<and> length f \<le> 6 then num (f @ replicate (6 - length f) CHR ''0'')
      else None)"

definition ref_strptime :: "string \<Rightarrow> string \<Rightarrow> datetime option" where
  "ref_strptime s fmt =
     (if fmt = ''%Y-%m-%dT%H:%M:%S.%f%z'' then
        (case drop 19 s of
           p # rest \<Rightarrow>
             if p = CHR ''.'' then
               (case (microsecond (takeWhile (\<lambda>c. digit_val c \<noteq> None) rest),
                      utc_offset (dropWhile (\<lambda>c. digit_val c \<noteq> None) rest)) of
                  (Some us, Some off) \<Rightarrow>
                    (case naive_fields (take 19 s) us of
                       Some w \<Rightarrow> Some (Datetime w (Some off))
                     | None \<Rightarrow> None)
                | _ \<Rightarrow> None)
             else None
         | [] \<Rightarrow> None)
      else if fmt = ''%Y-%m-%dT%H:%M:%S%z'' then
        (case (naive_fields (take 19 s) 0, utc_offset (drop 19 s)) of
           (Some w, Some off) \<Rightarrow> Some (Datetime w (Some off))
         | _ \<Rightarrow> None)
      else None)"

definition ref_fromisoformat :: "string \<Rightarrow> datetime option" where
  "ref_fromisoformat s =
     (case drop 19 s of
        [] \<Rightarrow> map_option (\<lambda>w. Datetime w None) (naive_fields s 0)
      | p # f \<Rightarrow>
          if p = CHR ''.'' \<and> (length f = 3 \<or> length f = 6) then
            (case microsecond f of
               Some us \<Rightarrow> map_option (\<lambda>w. Datetime w None) (naive_fields (take 19 s) us)
             | None \<Rightarrow> None)
          else None)"

definition ref_lib :: pylib where
  "ref_lib = \<lparr>strptime = ref_strptime, fromisoformat = ref_fromisoformat\<rparr>"

section \<open>Example issues\<close>

definition default_statuses :: "string set" where
  "default_statuses = {''Doing'', ''Blocked'', ''Review'', ''In Progress'', ''In Review''}"

definition status_item :: "string \<Rightarrow> string \<Rightarrow> item" where
  "status_item f t = \<lparr>field = ''status'', fromString = Some f, toString = Some t\<rparr>"

text \<open>Backlog to Doing to Review to Done, resolved at the last transition.\<close>

definition issue_done :: issue where
  "issue_done =
     \<lparr>key = ''PROJ-1'', summary = ''Three transitions'', status_name = ''Done'',
      fields_created = ''2024-03-01T09:00:00.000+0000'',
      resolutiondate = Some ''2024-03-06T09:00:00.000+0000'',
      assignee = None, priority = None, issuetype = Some ''Task'',
      histories =
        [\<lparr>created = ''2024-03-04T09:00:00.000+0000'', items = [status_item ''Backlog'' ''Doing'']\<rparr>,
         \<lparr>created = ''2024-03-05T15:00:00.000+0000'', items = [status_item ''Doing'' ''Review'']\<rparr>,
         \<lparr>created = ''2024-03-06T09:00:00.000+0000'', items = [status_item ''Review'' ''Done'']\<rparr>]\<rparr>"

text \<open>Resolved while still in Review: no transition out of Review is recorded.\<close>

definition issue_in_review :: issue where
  "issue_in_review =
     \<lparr>key = ''PROJ-2'', summary = ''Resolved in review'', status_name = ''Review'',
      fields_created = ''2024-03-01T09:00:00.000+0000'',
      resolutiondate = Some ''2024-03-05T09:00:00.000+0000'',
      assignee = None, priority = None, issuetype = None,
      histories =
        [\<lparr>created = ''2024-03-04T09:00:00.000+0000'', items = [status_item ''Backlog'' ''Review'']\<rparr>]\<rparr>"

text \<open>Still in Doing, not resolved.\<close>

definition issue_open :: issue where
  "issue_open =
     \<lparr>key = ''PROJ-3'', summary = ''Still open'', status_name = ''Doing'',
      fields_created = ''2024-03-01T09:00:00.000+0000'',
      resolutiondate = None,
      assignee = None, priority = None, issuetype = None,
      histories =
        [\<lparr>created = ''2024-03-04T09:00:00.000+0000'', items = [status_item ''Backlog'' ''Doing'']\<rparr>]\<rparr>"


text \<open>The changelog ends in a cycle-time status, the current status name is another one
  (the workflow status was renamed after the transition).\<close>

definition issue_renamed :: issue where
  "issue_renamed =
     \<lparr>key = ''PROJ-5'', summary = ''Status renamed'', status_name = ''In Development'',
      fields_created = ''2024-03-01T09:00:00.000+0000'',
      resolutiondate = None,
      assignee = None, priority = None, issuetype = None,
      histories =
        [\<lparr>created = ''2024-03-04T09:00:00.000+0000'', items = [status_item ''To Do'' ''In Progress'']\<rparr>]\<rparr>"

text \<open>Done, then reopened into Doing; the resolution date of the first completion was
  never cleared.\<close>

definition issue_reopened :: issue where
  "issue_reopened =
     \<lparr>key = ''PROJ-6'', summary = ''Reopened'', status_name = ''Doing'',
      fields_created = ''2024-03-01T09:00:00.000+0000'',
      resolutiondate = Some ''2024-03-05T09:00:00.000+0000'',
      assignee = None, priority = None, issuetype = None,
      histories =
        [\<lparr>created = ''2024-03-04T09:00:00.000+0000'', items = [status_item ''Backlog'' ''Doing'']\<rparr>,
         \<lparr>created = ''2024-03-05T09:00:00.000+0000'', items = [status_item ''Doing'' ''Done'']\<rparr>,
         \<lparr>created = ''2024-03-07T09:00:00.000+0000'', items = [status_item ''Done'' ''Doing'']\<rparr>]\<rparr>"

text \<open>Two readings of the clock, 2024-03-04T10:00 and 2024-03-04T11:00 UTC.\<close>

definition clock_10 :: clock where
  "clock_10 = \<lparr>utcnow = wall_of 2024 3 4 10 0 0 0, local_offset = 0\<rparr>"

definition clock_11 :: clock where
  "clock_11 = \<lparr>utcnow = wall_of 2024 3 4 11 0 0 0, local_offset = 0\<rparr>"

section \<open>The request executor: \<open>_make_request_with_retry\<close>\<close>

text \<open>
  The world the client acts on: the clock read by \<open>time.time()\<close> (an injected clock, which
  only \<open>time.sleep\<close> advances), the attribute \<open>self.last_request_time\<close>, the calls of
  \<open>time.sleep\<close> so far (oldest first, each with the place in the code that made it), the
  number of calls of \<open>session.request\<close> so far, and the source of \<open>random.random()\<close>
  with the number of values drawn from it. Log lines are not modelled.
\<close>

datatype sleep_kind = Pacing | RetryAfter | Backoff

record world =
  clock_time :: real
  last_request_time :: real
  sleeps :: "(sleep_kind \<times> real) list"
  sent :: nat
  entropy :: "nat \<Rightarrow> real"
  drawn :: nat

text \<open>The attributes set in \<open>__init__\<close> and by \<open>set_rate_limit\<close>.\<close>

record config =
  request_interval :: real
  max_retries :: int
  base_backoff :: real

text \<open>
  What \<open>session.request\<close> gives: it raises a \<open>RequestException\<close> (connection error,
  timeout), or answers. Of a response the code reads the status code, the
  \<open>Retry-After\<close> header (absent, or what \<open>int(...)\<close> makes of it, \<open>NotANumber\<close> when
  \<open>int\<close> raises \<open>ValueError\<close>) and the decoded body (\<open>None\<close> when \<open>response.json()\<close>
  raises). An endpoint is a request with its arguments fixed; its answer may depend on
  how many requests the session has sent before.
\<close>

datatype retry_after_header = NoHeader | Seconds int | NotANumber

record 'b response =
  status_code :: nat
  retry_after :: retry_after_header
  json :: "'b option"

datatype 'b outcome = Raised | Answered "'b response"

type_synonym 'b endpoint = "nat \<Rightarrow> 'b outcome"

definition slept :: "sleep_kind \<Rightarrow> real \<Rightarrow> world \<Rightarrow> world" where
  "slept k d w = w\<lparr>clock_time := clock_time w + d, sleeps := sleeps w @ [(k, d)]\<rparr>"

text \<open>\<open>time.sleep(d)\<close> raises \<open>ValueError\<close> on a negative length.\<close>

definition sleep :: "sleep_kind \<Rightarrow> real \<Rightarrow> world \<Rightarrow> error + world" where
  "sleep k d w = (if d < 0 then Inl ValueError else Inr (slept k d w))"

definition unit_interval :: "real \<Rightarrow> real" where
  "unit_interval x = max 0 (min 1 x)"

text \<open>\<open>random.uniform(a, b)\<close> is \<open>a + (b - a) * random.random()\<close>, the random value
  lying in the unit interval.\<close>

definition uniform :: "real \<Rightarrow> real \<Rightarrow> world \<Rightarrow> real \<times> world" where
  "uniform a b w =
     (a + (b - a) * unit_interval (entropy w (drawn w)), w\<lparr>drawn := drawn w + 1\<rparr>)"

definition rate_limit :: "config \<Rightarrow> world \<Rightarrow> world" where
  "rate_limit cfg w =
     (let time_since_last = clock_time w - last_request_time w;
          w1 = (if time_since_last < request_interval cfg
                then slept Pacing (request_interval cfg - time_since_last) w else w)
      in w1\<lparr>last_request_time := clock_time w1\<rparr>)"

definition session_request :: "'b endpoint \<Rightarrow> world \<Rightarrow> 'b outcome \<times> world" where
  "session_request ep w = (ep (sent w), w\<lparr>sent := sent w + 1\<rparr>)"

text \<open>\<open>response.raise_for_status()\<close>: an \<open>HTTPError\<close> for the codes 400 to 599.\<close>

definition raise_for_status :: "'b response \<Rightarrow> error option" where
  "raise_for_status r =
     (if 400 \<le> status_code r \<and> status_code r < 600 then Some (HTTPError (status_code r))
      else None)"

text \<open>How one pass through the body of the \<open>for\<close> loop ends.\<close>

datatype 'a pass = Return 'a | Raise error | Continue

text \<open>The exponential backoff, computed and slept in two places of the loop body.\<close>

definition backoff_and_continue :: "config \<Rightarrow> int \<Rightarrow> world \<Rightarrow> 'a pass \<times> world" where
  "backoff_and_continue cfg attempt w =
     (case uniform 0 1 w of
        (jitter, w1) \<Rightarrow>
          (case sleep Backoff (base_backoff cfg * 2 ^ nat attempt + jitter) w1 of
             Inl e \<Rightarrow> (Raise e, w1)
           | Inr w2 \<Rightarrow> (Continue, w2)))"

text \<open>The handler \<open>except requests.exceptions.RequestException\<close>.\<close>

definition except_RequestException :: "config \<Rightarrow> error \<Rightarrow> int \<Rightarrow> world \<Rightarrow> 'a pass \<times> world" where
  "except_RequestException cfg e attempt w =
     (if attempt = max_retries cfg - 1 then (Raise e, w)
      else backoff_and_continue cfg attempt w)"

text \<open>An exception raised inside the \<open>try\<close> block: the handler takes the
  \<open>RequestException\<close>s, every other exception leaves the function.\<close>

definition raised_in_try :: "config \<Rightarrow> error \<Rightarrow> int \<Rightarrow> world \<Rightarrow> 'a pass \<times> world" where
  "raised_in_try cfg e attempt w =
     (if is_RequestException e then except_RequestException cfg e attempt w
      else (Raise e, w))"

definition attempt_once :: "config \<Rightarrow> 'b endpoint \<Rightarrow> int \<Rightarrow> world \<Rightarrow> 'b response pass \<times> world" where
  "attempt_once cfg ep attempt w =
     (case session_request ep (rate_limit cfg w) of
        (Raised, w1) \<Rightarrow> raised_in_try cfg ConnectionError attempt w1
      | (Answered response, w1) \<Rightarrow>
          if status_code response = 429 then
            (case retry_after response of
               NotANumber \<Rightarrow> raised_in_try cfg ValueError attempt w1
             | h \<Rightarrow>
                (case uniform (1 / 10) (1 / 2) w1 of
                   (jitter, w2) \<Rightarrow>
                     (case sleep RetryAfter
                             (real_of_int (case h of Seconds n \<Rightarrow> n | _ \<Rightarrow> 60) + jitter) w2 of
                        Inl e \<Rightarrow> raised_in_try cfg e attempt w2
                      | Inr w3 \<Rightarrow> (Continue, w3))))
          else if 500 \<le> status_code response then
            (case (if attempt = max_retries cfg - 1 then raise_for_status response else None) of
               Some e \<Rightarrow> raised_in_try cfg e attempt w1
             | None \<Rightarrow>
                (case backoff_and_continue cfg attempt w1 of
                   (Raise e, w2) \<Rightarrow> raised_in_try cfg e attempt w2
                 | other \<Rightarrow> other))
          else
            (case raise_for_status response of
               Some e \<Rightarrow> raised_in_try cfg e attempt w1
             | None \<Rightarrow> (Return response, w1)))"

text \<open>\<open>for attempt in range(self.max_retries)\<close>, and the \<open>raise\<close> after the loop.\<close>

function retry_loop :: "config \<Rightarrow> 'b endpoint \<Rightarrow> int \<Rightarrow> world \<Rightarrow> (error + 'b response) \<times> world" where
  "retry_loop cfg ep attempt w =
     (if attempt < max_retries cfg then
        (case attempt_once cfg ep attempt w of
           (Return response, w') \<Rightarrow> (Inr response, w')
         | (Raise e, w') \<Rightarrow> (Inl e, w')
         | (Continue, w') \<Rightarrow> retry_loop cfg ep (attempt + 1) w')
      else (Inl (Failed (max_retries cfg)), w))"
  by pat_completeness auto
termination
  by (relation "measure (\<lambda>(cfg, ep, attempt, w). nat (max_retries cfg - attempt))") auto

definition make_request_with_retry :: "config \<Rightarrow> 'b endpoint \<Rightarrow> world \<Rightarrow> (error + 'b response) \<times> world" where
  "make_request_with_retry cfg ep w = retry_loop cfg ep 0 w"

definition backoff_sleeps :: "world \<Rightarrow> nat" where
  "backoff_sleeps w = length (filter (\<lambda>s. fst s = Backoff) (sleeps w))"

section \<open>The paginated fetcher: \<open>get_issues\<close>\<close>

text \<open>
  The decoded bodies of the two search endpoints, with the keys the code reads
  (\<open>page_ids\<close>: the \<open>id\<close> of every entry of \<open>issues\<close>; a missing \<open>issues\<close> key is the
  empty list; \<open>isLast\<close>, \<open>nextPageToken\<close> and \<open>total\<close> are \<open>None\<close> when missing). The
  body of the detail endpoint is an issue, or \<open>None\<close> for an empty object. The server
  answers each request from its arguments and the number of requests sent before.
\<close>

record jql_page =
  page_ids :: "string list"
  isLast :: "bool option"
  nextPageToken :: "string option"

record search_page =
  page_issues :: "issue list"
  page_total :: "int option"

record server =
  search_jql :: "string \<Rightarrow> int \<Rightarrow> string option \<Rightarrow> jql_page endpoint"
  search :: "string \<Rightarrow> int \<Rightarrow> int \<Rightarrow> search_page endpoint"
  issue_detail :: "string \<Rightarrow> issue option endpoint"

text \<open>A value is truthy when it is there and not empty.\<close>

fun truthy :: "string option \<Rightarrow> bool" where
  "truthy None = False"
| "truthy (Some s) = (s \<noteq> [])"

definition get_issue_detail :: "config \<Rightarrow> server \<Rightarrow> string \<Rightarrow> world \<Rightarrow> issue option \<times> world" where
  "get_issue_detail cfg srv issue_id w =
     (case make_request_with_retry cfg (issue_detail srv issue_id) w of
        (Inl e, w') \<Rightarrow> (None, w')
      | (Inr response, w') \<Rightarrow>
         (case json response of
            None \<Rightarrow> (None, w')
          | Some detail \<Rightarrow> (detail, w')))"

text \<open>The loop over the entries of one page of the token-cursor strategy.\<close>

fun fetch_details :: "config \<Rightarrow> server \<Rightarrow> string list \<Rightarrow> issue list \<Rightarrow> world \<Rightarrow> issue list \<times> world" where
  "fetch_details cfg srv [] issues w = (issues, w)"
| "fetch_details cfg srv (issue_id # ids) issues w =
     (case get_issue_detail cfg srv issue_id w of
        (None, w') \<Rightarrow> fetch_details cfg srv ids issues w'
      | (Some detail, w') \<Rightarrow> fetch_details cfg srv ids (issues @ [detail]) w')"

text \<open>The \<open>while\<close> loop of \<open>_get_issues_v3_jql\<close>. It need not end (a server that never
  sets \<open>isLast\<close> and returns pages without issues keeps it running): \<open>None\<close> is
  not returning.\<close>

partial_function (option) jql_loop ::
    "config \<Rightarrow> server \<Rightarrow> string \<Rightarrow> int \<Rightarrow> issue list \<Rightarrow> string option \<Rightarrow> world \<Rightarrow>
     ((error + issue list) \<times> world) option" where
  "jql_loop cfg srv jql max_results issues next_page_token w =
     (if int (length issues) < max_results then
        (case make_request_with_retry cfg
                (search_jql srv jql (min (max_results - int (length issues)) 100)
                   (if truthy next_page_token then next_page_token else None)) w of
           (Inl e, w1) \<Rightarrow> Some (Inl e, w1)
         | (Inr response, w1) \<Rightarrow>
            (case json response of
               None \<Rightarrow> Some (Inl JSONDecodeError, w1)
             | Some data \<Rightarrow>
                (case fetch_details cfg srv (page_ids data) issues w1 of
                   (issues', w2) \<Rightarrow>
                     if isLast data \<noteq> Some False \<or> \<not> truthy (nextPageToken data)
                     then Some (Inr issues', w2)
                     else jql_loop cfg srv jql max_results issues' (nextPageToken data) w2)))
      else Some (Inr issues, w))"

definition get_issues_v3_jql ::
    "config \<Rightarrow> server \<Rightarrow> string \<Rightarrow> int \<Rightarrow> world \<Rightarrow> ((error + issue list) \<times> world) option" where
  "get_issues_v3_jql cfg srv jql max_results w = jql_loop cfg srv jql max_results [] None w"

text \<open>The \<open>while\<close> loop of \<open>_get_issues_v3_search\<close>. Every pass that does not leave the
  loop adds at least one issue, so it ends.\<close>

function search_loop ::
    "config \<Rightarrow> server \<Rightarrow> string \<Rightarrow> int \<Rightarrow> issue list \<Rightarrow> int \<Rightarrow> world \<Rightarrow>
     (error + issue list) \<times> world" where
  "search_loop cfg srv jql max_results issues start_at w =
     (if int (length issues) < max_results then
        (case make_request_with_retry cfg
                (search srv jql (min (max_results - int (length issues)) 100) start_at) w of
           (Inl e, w1) \<Rightarrow> (Inl e, w1)
         | (Inr response, w1) \<Rightarrow>
            (case json response of
               None \<Rightarrow> (Inl JSONDecodeError, w1)
             | Some data \<Rightarrow>
                 if length (page_issues data) = 0 \<or>
                    (case page_total data of None \<Rightarrow> 0 | Some n \<Rightarrow> n)
                      \<le> int (length (issues @ page_issues data))
                 then (Inr (issues @ page_issues data), w1)
                 else search_loop cfg srv jql max_results (issues @ page_issues data)
                        (start_at + int (length (page_issues data))) w1))
      else (Inr issues, w))"
  by pat_completeness auto
termination
  by (relation "measure (\<lambda>(cfg, srv, jql, max_results, issues, start_at, w).
                   nat (max_results - int (length issues)))") auto

definition get_issues_v3_search ::
    "config \<Rightarrow> server \<Rightarrow> string \<Rightarrow> int \<Rightarrow> world \<Rightarrow> (error + issue list) \<times> world" where
  "get_issues_v3_search cfg srv jql max_results w = search_loop cfg srv jql max_results [] 0 w"

text \<open>\<open>get_issues\<close>: the token-cursor strategy, and on any exception from it the offset
  strategy, run in the world the failed attempt has left.\<close>

definition get_issues ::
    "config \<Rightarrow> server \<Rightarrow> string \<Rightarrow> int \<Rightarrow> world \<Rightarrow> ((error + issue list) \<times> world) option" where
  "get_issues cfg srv jql max_results w =
     (case get_issues_v3_jql cfg srv jql max_results w of
        None \<Rightarrow> None
      | Some (Inr issues, w') \<Rightarrow> Some (Inr issues, w')
      | Some (Inl e, w') \<Rightarrow> Some (get_issues_v3_search cfg srv jql max_results w'))"

text \<open>An endpoint that answers from the arguments of the request alone, and a server
  whose offset endpoint does.\<close>

definition stateless :: "'b endpoint \<Rightarrow> bool" where
  "stateless ep = (\<forall>n. ep n = ep 0)"

definition stateless_search :: "server \<Rightarrow> string \<Rightarrow> bool" where
  "stateless_search srv jql =
     (\<forall>max_results start_at. stateless (search srv jql max_results start_at))"

section \<open>The metrics assembler: \<open>extract_metrics\<close>\<close>

record metric =
  m_key :: string
  m_summary :: string
  m_status :: string
  m_created :: string
  m_resolved :: "string option"
  m_assignee :: "string option"
  m_priority :: "string option"
  m_issue_type :: "string option"
  cycle_time_hours :: real
  cycle_time_days :: real
  m_status_periods :: "status_period list"

text \<open>The loop over the fetched issues; \<open>now_at i\<close> is the clock while the \<open>i\<close>-th
  issue is replayed.\<close>

fun assemble :: "pylib \<Rightarrow> (nat \<Rightarrow> clock) \<Rightarrow> string set \<Rightarrow> nat \<Rightarrow> issue list \<Rightarrow> error + metric list" where
  "assemble lib now_at S i [] = Inr []"
| "assemble lib now_at S i (issue # issues) =
     (case calculate_cycle_time lib (now_at i) S issue of
        Inl e \<Rightarrow> Inl e
      | Inr (cycle_time, periods) \<Rightarrow>
         (case assemble lib now_at S (i + 1) issues of
            Inl e \<Rightarrow> Inl e
          | Inr metrics \<Rightarrow>
              Inr (\<lparr>m_key = key issue, m_summary = summary issue, m_status = status_name issue,
                    m_created = fields_created issue, m_resolved = resolutiondate issue,
                    m_assignee = assignee issue, m_priority = priority issue,
                    m_issue_type = issuetype issue,
                    cycle_time_hours = cycle_time,
                    cycle_time_days = (if cycle_time > 0 then cycle_time / 24 else 0),
                    m_status_periods = periods\<rparr> # metrics)))"

definition extract_metrics ::
    "pylib \<Rightarrow> (nat \<Rightarrow> clock) \<Rightarrow> string set \<Rightarrow> config \<Rightarrow> server \<Rightarrow> string \<Rightarrow> int \<Rightarrow> world \<Rightarrow>
     ((error + metric list) \<times> world) option" where
  "extract_metrics lib now_at S cfg srv jql max_results w =
     (case get_issues cfg srv jql max_results w of
        None \<Rightarrow> None
      | Some (Inl e, w') \<Rightarrow> Some (Inl e, w')
      | Some (Inr issues, w') \<Rightarrow> Some (assemble lib now_at S 0 issues, w'))"

section \<open>Example configuration, world and servers\<close>

text \<open>The configuration \<open>__init__\<close> sets up, and a world in which nothing has been sent.\<close>

definition default_config :: config where
  "default_config = \<lparr>request_interval = 1, max_retries = 5, base_backoff = 1\<rparr>"

definition initial_world :: world where
  "initial_world =
     \<lparr>clock_time = 1000, last_request_time = 0, sleeps = [], sent = 0,
      entropy = (\<lambda>n. 1 / 2), drawn = 0\<rparr>"

text \<open>A mocked sequence of responses, given by their status codes, all with the same
  body; past the end of the sequence the mock raises.\<close>

definition mocked :: "nat list \<Rightarrow> 'b option \<Rightarrow> 'b endpoint" where
  "mocked codes body n =
     (if n < length codes
      then Answered \<lparr>status_code = codes ! n, retry_after = NoHeader, json = body\<rparr>
      else Raised)"

text \<open>A tracker on which the token-cursor endpoint is gone (status 410) and the offset
  endpoint serves the three issues of a project, \<open>maxResults\<close> at a time.\<close>

definition project_issues :: "issue list" where
  "project_issues = [issue_done, issue_in_review, issue_reopened]"

definition offset_only_server :: server where
  "offset_only_server =
     \<lparr>search_jql = (\<lambda>jql max_results token n.
        Answered \<lparr>status_code = 410, retry_after = NoHeader, json = None\<rparr>),
      search = (\<lambda>jql max_results start_at n.
        Answered \<lparr>status_code = 200, retry_after = NoHeader,
          json = Some \<lparr>page_issues = take (nat max_results) (drop (nat start_at) project_issues),
                       page_total = Some 3\<rparr>\<rparr>),
      issue_detail = (\<lambda>issue_id n.
        Answered \<lparr>status_code = 404, retry_after = NoHeader, json = None\<rparr>)\<rparr>"

section \<open>Properties of the changelog replay\<close>

subsection \<open>Order of the status changes\<close>















subsection \<open>The total is the sum of the periods\<close>









subsection \<open>The final period\<close>

lemma dt_sub_now:
  "\<exists>td. dt_sub (datetime_now clk (tzinfo d)) d = Inr td"
  by (cases d; cases "tzinfo d") (auto simp: datetime_now_def)

text \<open>
  Claim C3, as the code has it. The final period is emitted when the walk leaves
  \<open>current_cycle_start\<close> set and, in addition, the current status of the issue is a
  cycle-time status. Then one period is appended, from the open start, carrying the
  current status; it ends at the parsed \<open>resolutiondate\<close> when that is there and not
  empty, and at the clock reading otherwise; its duration is added to the total.
\<close>

theorem final_period_closes_open_cycle:
  assumes "histories issue \<noteq> []"
    and "replay_walk lib S issue = Inr st"
    and "current_cycle_start st = Some cycle_start"
    and "status_name issue \<in> S"
  shows "(\<forall>r e td. resolutiondate issue = Some r \<longrightarrow> r \<noteq> [] \<longrightarrow>
            parse_datetime lib r = Inr e \<longrightarrow> dt_sub e cycle_start = Inr td \<longrightarrow>
            calculate_cycle_time lib clk S issue =
              Inr (total_cycle_time st + hours td,
                   status_periods st @
                     [\<lparr>p_status = status_name issue, p_start = cycle_start, p_end = e,
                       duration_hours = hours td\<rparr>])) \<and>
         (resolutiondate issue = None \<or> resolutiondate issue = Some [] \<longrightarrow>
            (\<exists>td. dt_sub (datetime_now clk (tzinfo cycle_start)) cycle_start = Inr td \<and>
               calculate_cycle_time lib clk S issue =
                 Inr (total_cycle_time st + hours td,
                      status_periods st @
                        [\<lparr>p_status = status_name issue, p_start = cycle_start,
                          p_end = datetime_now clk (tzinfo cycle_start),
                          duration_hours = hours td\<rparr>])))"
proof (intro conjI allI impI)
  fix r e td
  assume "resolutiondate issue = Some r" "r \<noteq> []" "parse_datetime lib r = Inr e"
    "dt_sub e cycle_start = Inr td"
  with assms show "calculate_cycle_time lib clk S issue =
      Inr (total_cycle_time st + hours td,
           status_periods st @
             [\<lparr>p_status = status_name issue, p_start = cycle_start, p_end = e,
               duration_hours = hours td\<rparr>])"
    by (simp add: calculate_cycle_time_def close_open_def end_date_def)
next
  assume unresolved: "resolutiondate issue = None \<or> resolutiondate issue = Some []"
  obtain td where td: "dt_sub (datetime_now clk (tzinfo cycle_start)) cycle_start = Inr td"
    using dt_sub_now by blast
  from unresolved have "end_date lib clk issue cycle_start = Inr (datetime_now clk (tzinfo cycle_start))"
    by (auto simp: end_date_def)
  with assms td have "calculate_cycle_time lib clk S issue =
      Inr (total_cycle_time st + hours td,
           status_periods st @
             [\<lparr>p_status = status_name issue, p_start = cycle_start,
               p_end = datetime_now clk (tzinfo cycle_start), duration_hours = hours td\<rparr>])"
    by (simp add: calculate_cycle_time_def close_open_def)
  with td show "\<exists>td. dt_sub (datetime_now clk (tzinfo cycle_start)) cycle_start = Inr td \<and>
      calculate_cycle_time lib clk S issue =
        Inr (total_cycle_time st + hours td,
             status_periods st @
               [\<lparr>p_status = status_name issue, p_start = cycle_start,
                 p_end = datetime_now clk (tzinfo cycle_start), duration_hours = hours td\<rparr>])"
    by blast
qed

theorem final_period_closes_open_cycle_witness:
  "calculate_cycle_time ref_lib clock_10 default_statuses issue_in_review =
     Inr (24, [\<lparr>p_status = ''Review'', p_start = Datetime 63845139600000000 (Some 0),
                p_end = Datetime 63845226000000000 (Some 0), duration_hours = 24\<rparr>]) \<and>
   calculate_cycle_time ref_lib clock_10 default_statuses issue_open =
     Inr (1, [\<lparr>p_status = ''Doing'', p_start = Datetime 63845139600000000 (Some 0),
               p_end = Datetime 63845143200000000 (Some 0), duration_hours = 1\<rparr>])"
proof -
  let ?st = "\<lparr>total_cycle_time = 0, status_periods = [],
              current_cycle_start = Some (Datetime 63845139600000000 (Some 0))\<rparr>"
  have h1: "histories issue_in_review \<noteq> []" by code_simp
  have w1: "replay_walk ref_lib default_statuses issue_in_review = Inr ?st" by code_simp
  have s1: "status_name issue_in_review \<in> default_statuses" by code_simp
  have r1: "resolutiondate issue_in_review = Some ''2024-03-05T09:00:00.000+0000''"
    by code_simp
  have p1: "parse_datetime ref_lib ''2024-03-05T09:00:00.000+0000'' =
              Inr (Datetime 63845226000000000 (Some 0))"
    by code_simp
  have d1: "dt_sub (Datetime 63845226000000000 (Some 0)) (Datetime 63845139600000000 (Some 0)) =
              Inr 86400000000"
    by simp
  have h2: "histories issue_open \<noteq> []" by code_simp
  have w2: "replay_walk ref_lib default_statuses issue_open = Inr ?st" by code_simp
  have s2: "status_name issue_open \<in> default_statuses" by code_simp
  have r2: "resolutiondate issue_open = None" by code_simp
  have n2: "datetime_now clock_10 (Some 0) = Datetime 63845143200000000 (Some 0)"
    by code_simp
  have hs: "hours 86400000000 = 24" "hours 3600000000 = 1"
    by (simp_all add: hours_def)
  from final_period_closes_open_cycle [OF h1 w1 _ s1, of _ clock_10] r1 p1 d1
    final_period_closes_open_cycle [OF h2 w2 _ s2, of _ clock_10] r2 n2 hs
  show ?thesis by (simp add: issue_in_review_def issue_open_def)
qed

text \<open>
  Claim C3 as stated (an open start after the walk alone gives a final period) fails on
  \<open>issue_renamed\<close>: the walk ends with the start set, the current status is not a
  cycle-time status, and no period is emitted.
\<close>

theorem final_period_counterexample:
  "replay_walk ref_lib default_statuses issue_renamed =
     Inr \<lparr>total_cycle_time = 0, status_periods = [],
          current_cycle_start = Some (Datetime 63845139600000000 (Some 0))\<rparr> \<and>
   calculate_cycle_time ref_lib clock_10 default_statuses issue_renamed = Inr (0, [])"
  by code_simp

subsection \<open>Status and orientation of the periods\<close>










subsection \<open>A transition between two cycle-time statuses\<close>





subsection \<open>Dependence on the clock\<close>

text \<open>
  Claim C9, as the code has it. The result is a function of the issue, the status set and
  the reading of the clock. The clock has no influence when the issue has a non-empty
  \<open>resolutiondate\<close> or its current status is not a cycle-time status.
\<close>

theorem clock_only_closes_unresolved_open_cycle:
  assumes "(\<exists>r. resolutiondate issue = Some r \<and> r \<noteq> []) \<or> status_name issue \<notin> S"
  shows "calculate_cycle_time lib clk1 S issue = calculate_cycle_time lib clk2 S issue"
proof -
  have "close_open lib clk1 S issue st = close_open lib clk2 S issue st" for st
    using assms by (auto simp: close_open_def end_date_def split: option.splits)
  then show ?thesis
    by (simp add: calculate_cycle_time_def split: sum.splits)
qed

theorem clock_only_closes_unresolved_open_cycle_witness:
  "calculate_cycle_time ref_lib clock_10 default_statuses issue_in_review =
     calculate_cycle_time ref_lib clock_11 default_statuses issue_in_review \<and>
   calculate_cycle_time ref_lib clock_10 default_statuses issue_renamed =
     calculate_cycle_time ref_lib clock_11 default_statuses issue_renamed"
proof -
  have r: "\<exists>r. resolutiondate issue_in_review = Some r \<and> r \<noteq> []"
    by (simp add: issue_in_review_def)
  have s: "status_name issue_renamed \<notin> default_statuses"
    by (simp add: issue_renamed_def default_statuses_def)
  from clock_only_closes_unresolved_open_cycle [OF disjI1, OF r]
    clock_only_closes_unresolved_open_cycle [OF disjI2, OF s]
  show ?thesis by blast
qed

text \<open>
  Claim C9 as stated (same issue and same status set give the same result) fails on
  \<open>issue_open\<close>, evaluated at ten and at eleven o'clock.
\<close>

theorem same_issue_same_result_counterexample:
  "calculate_cycle_time ref_lib clock_10 default_statuses issue_open \<noteq>
   calculate_cycle_time ref_lib clock_11 default_statuses issue_open"
  by code_simp

section \<open>Properties of the request executor\<close>

declare retry_loop.simps [simp del]

lemma unit_interval_bounds: "0 \<le> unit_interval x" "unit_interval x \<le> 1"
  by (simp_all add: unit_interval_def)

lemma rate_limit_fields:
  "sent (rate_limit cfg w) = sent w"
  "backoff_sleeps (rate_limit cfg w) = backoff_sleeps w"
  "entropy (rate_limit cfg w) = entropy w"
  "drawn (rate_limit cfg w) = drawn w"
  by (simp_all add: rate_limit_def Let_def slept_def backoff_sleeps_def)

lemma backoff_and_continue_ok:
  assumes "0 \<le> base_backoff cfg"
  shows "backoff_and_continue cfg attempt w =
           (Continue,
            slept Backoff (base_backoff cfg * 2 ^ nat attempt + unit_interval (entropy w (drawn w)))
              (w\<lparr>drawn := drawn w + 1\<rparr>))"
proof -
  have "0 \<le> base_backoff cfg * 2 ^ nat attempt + unit_interval (entropy w (drawn w))"
    using assms unit_interval_bounds(1) [of "entropy w (drawn w)"] by simp
  then show ?thesis
    by (simp add: backoff_and_continue_def uniform_def sleep_def)
qed

lemma slept_fields:
  "sent (slept k d w) = sent w"
  "backoff_sleeps (slept k d w) = backoff_sleeps w + (if k = Backoff then 1 else 0)"
  by (simp_all add: slept_def backoff_sleeps_def)

lemma backoff_sleeps_update:
  "backoff_sleeps (w\<lparr>sent := n\<rparr>) = backoff_sleeps w"
  "backoff_sleeps (w\<lparr>drawn := m\<rparr>) = backoff_sleeps w"
  by (simp_all add: backoff_sleeps_def)

lemma attempt_once_server_error:
  assumes "ep (sent w) = Answered r" and "500 \<le> status_code r"
    and "attempt \<noteq> max_retries cfg - 1" and "0 \<le> base_backoff cfg"
  shows "\<exists>w'. attempt_once cfg ep attempt w = (Continue, w') \<and>
           sent w' = sent w + 1 \<and> backoff_sleeps w' = backoff_sleeps w + 1"
  using assms
  by (simp add: attempt_once_def session_request_def rate_limit_fields
      backoff_and_continue_ok slept_fields backoff_sleeps_update)

lemma attempt_once_success:
  assumes "ep (sent w) = Answered r" and "status_code r < 400"
  shows "\<exists>w'. attempt_once cfg ep attempt w = (Return r, w') \<and>
           sent w' = sent w + 1 \<and> backoff_sleeps w' = backoff_sleeps w"
  using assms
  by (simp add: attempt_once_def session_request_def rate_limit_fields raise_for_status_def
      backoff_sleeps_update)

lemma attempt_once_last_error:
  assumes "ep (sent w) = Answered r" and "400 \<le> status_code r" and "status_code r < 600"
    and "status_code r \<noteq> 429" and "attempt = max_retries cfg - 1"
  shows "\<exists>w'. attempt_once cfg ep attempt w = (Raise (HTTPError (status_code r)), w') \<and>
           sent w' = sent w + 1 \<and> backoff_sleeps w' = backoff_sleeps w"
  using assms
  by (simp add: attempt_once_def session_request_def rate_limit_fields raise_for_status_def
      raised_in_try_def except_RequestException_def backoff_sleeps_update)

lemma attempt_once_client_error:
  assumes "ep (sent w) = Answered r" and "400 \<le> status_code r" and "status_code r < 500"
    and "status_code r \<noteq> 429" and "attempt \<noteq> max_retries cfg - 1" and "0 \<le> base_backoff cfg"
  shows "\<exists>w'. attempt_once cfg ep attempt w = (Continue, w') \<and>
           sent w' = sent w + 1 \<and> backoff_sleeps w' = backoff_sleeps w + 1"
  using assms
  by (simp add: attempt_once_def session_request_def rate_limit_fields raise_for_status_def
      raised_in_try_def except_RequestException_def
      backoff_and_continue_ok slept_fields backoff_sleeps_update)

lemma retry_loop_Continue:
  assumes "attempt < max_retries cfg" and "attempt_once cfg ep attempt w = (Continue, w')"
  shows "retry_loop cfg ep attempt w = retry_loop cfg ep (attempt + 1) w'"
  using assms by (subst retry_loop.simps) simp

lemma retry_loop_Return:
  assumes "attempt < max_retries cfg" and "attempt_once cfg ep attempt w = (Return r, w')"
  shows "retry_loop cfg ep attempt w = (Inr r, w')"
  using assms by (subst retry_loop.simps) simp

lemma retry_loop_Raise:
  assumes "attempt < max_retries cfg" and "attempt_once cfg ep attempt w = (Raise e, w')"
  shows "retry_loop cfg ep attempt w = (Inl e, w')"
  using assms by (subst retry_loop.simps) simp

text \<open>
  Claim C7: with \<open>max_retries = 5\<close>, the responses 500, 500, 200 give the third response
  after three requests and two backoff sleeps; five responses 500 give the \<open>HTTPError\<close>
  of the fifth after five requests (and four backoff sleeps), and no sixth request.
\<close>

theorem retry_on_server_errors:
  assumes "max_retries cfg = 5" and "0 \<le> base_backoff cfg"
    and "ep (sent w) = Answered r0" and "status_code r0 = 500"
    and "ep (sent w + 1) = Answered r1" and "status_code r1 = 500"
  shows "(ep (sent w + 2) = Answered r2 \<and> status_code r2 = 200 \<longrightarrow>
            (\<exists>w'. make_request_with_retry cfg ep w = (Inr r2, w') \<and>
                   backoff_sleeps w' = backoff_sleeps w + 2 \<and> sent w' = sent w + 3)) \<and>
         (ep (sent w + 2) = Answered r2 \<and> status_code r2 = 500 \<and>
          ep (sent w + 3) = Answered r3 \<and> status_code r3 = 500 \<and>
          ep (sent w + 4) = Answered r4 \<and> status_code r4 = 500 \<longrightarrow>
            (\<exists>w'. make_request_with_retry cfg ep w = (Inl (HTTPError 500), w') \<and>
                   backoff_sleeps w' = backoff_sleeps w + 4 \<and> sent w' = sent w + 5))"
proof -
  from attempt_once_server_error [of ep w r0 0 cfg] assms
  obtain w1 where a0: "attempt_once cfg ep 0 w = (Continue, w1)"
    and s1: "sent w1 = sent w + 1" and b1: "backoff_sleeps w1 = backoff_sleeps w + 1"
    by auto
  from attempt_once_server_error [of ep w1 r1 1 cfg] assms s1
  obtain w2 where a1: "attempt_once cfg ep 1 w1 = (Continue, w2)"
    and s2: "sent w2 = sent w + 2" and b2: "backoff_sleeps w2 = backoff_sleeps w1 + 1"
    by auto
  have start: "make_request_with_retry cfg ep w = retry_loop cfg ep 2 w2"
    using retry_loop_Continue [OF _ a0] retry_loop_Continue [OF _ a1] assms(1)
    by (simp add: make_request_with_retry_def)
  show ?thesis
  proof (intro conjI impI)
    assume "ep (sent w + 2) = Answered r2 \<and> status_code r2 = 200"
    with attempt_once_success [of ep w2 r2 cfg 2] s2
    obtain w3 where a2: "attempt_once cfg ep 2 w2 = (Return r2, w3)"
      and s3: "sent w3 = sent w2 + 1" and b3: "backoff_sleeps w3 = backoff_sleeps w2"
      by auto
    from retry_loop_Return [OF _ a2] assms(1) start
    have "make_request_with_retry cfg ep w = (Inr r2, w3)" by simp
    with s2 s3 b1 b2 b3
    show "\<exists>w'. make_request_with_retry cfg ep w = (Inr r2, w') \<and>
                backoff_sleeps w' = backoff_sleeps w + 2 \<and> sent w' = sent w + 3"
      by simp
  next
    assume five: "ep (sent w + 2) = Answered r2 \<and> status_code r2 = 500 \<and>
          ep (sent w + 3) = Answered r3 \<and> status_code r3 = 500 \<and>
          ep (sent w + 4) = Answered r4 \<and> status_code r4 = 500"
    from attempt_once_server_error [of ep w2 r2 2 cfg] assms s2 five
    obtain w3 where a2: "attempt_once cfg ep 2 w2 = (Continue, w3)"
      and s3: "sent w3 = sent w + 3" and b3: "backoff_sleeps w3 = backoff_sleeps w2 + 1"
      by auto
    from attempt_once_server_error [of ep w3 r3 3 cfg] assms s3 five
    obtain w4 where a3: "attempt_once cfg ep 3 w3 = (Continue, w4)"
      and s4: "sent w4 = sent w + 4" and b4: "backoff_sleeps w4 = backoff_sleeps w3 + 1"
      by auto
    from attempt_once_last_error [of ep w4 r4 4 cfg] assms s4 five
    obtain w5 where a4: "attempt_once cfg ep 4 w4 = (Raise (HTTPError 500), w5)"
      and s5: "sent w5 = sent w + 5" and b5: "backoff_sleeps w5 = backoff_sleeps w4"
      by auto
    from retry_loop_Continue [OF _ a2] retry_loop_Continue [OF _ a3] retry_loop_Raise [OF _ a4]
      assms(1) start
    have "make_request_with_retry cfg ep w = (Inl (HTTPError 500), w5)" by simp
    with s5 b1 b2 b3 b4 b5
    show "\<exists>w'. make_request_with_retry cfg ep w = (Inl (HTTPError 500), w') \<and>
                backoff_sleeps w' = backoff_sleeps w + 4 \<and> sent w' = sent w + 5"
      by simp
  qed
qed

theorem retry_on_server_errors_witness:
  "fst (make_request_with_retry default_config (mocked [500, 500, 200] (Some ())) initial_world) =
     Inr \<lparr>status_code = 200, retry_after = NoHeader, json = Some ()\<rparr> \<and>
   backoff_sleeps (snd (make_request_with_retry default_config
                          (mocked [500, 500, 200] (Some ())) initial_world)) = 2 \<and>
   sent (snd (make_request_with_retry default_config
                (mocked [500, 500, 200] (Some ())) initial_world)) = 3 \<and>
   fst (make_request_with_retry default_config
          (mocked [500, 500, 500, 500, 500] (Some ())) initial_world) = Inl (HTTPError 500) \<and>
   backoff_sleeps (snd (make_request_with_retry default_config
                          (mocked [500, 500, 500, 500, 500] (Some ())) initial_world)) = 4 \<and>
   sent (snd (make_request_with_retry default_config
                (mocked [500, 500, 500, 500, 500] (Some ())) initial_world)) = 5"
proof -
  let ?r = "\<lambda>c. \<lparr>status_code = c, retry_after = NoHeader, json = Some ()\<rparr>"
  have w0: "sent initial_world = 0" "backoff_sleeps initial_world = 0"
    by (simp_all add: initial_world_def backoff_sleeps_def)
  have cfg: "max_retries default_config = 5" "0 \<le> base_backoff default_config"
    by (simp_all add: default_config_def)
  have a: "\<exists>w'. make_request_with_retry default_config (mocked [500, 500, 200] (Some ()))
                  initial_world = (Inr (?r 200), w') \<and>
                backoff_sleeps w' = backoff_sleeps initial_world + 2 \<and>
                sent w' = sent initial_world + 3"
    using retry_on_server_errors [of default_config "mocked [500, 500, 200] (Some ())"
        initial_world "?r 500" "?r 500" "?r 200"] cfg
    by (simp add: mocked_def w0)
  have b: "\<exists>w'. make_request_with_retry default_config (mocked [500, 500, 500, 500, 500] (Some ()))
                  initial_world = (Inl (HTTPError 500), w') \<and>
                backoff_sleeps w' = backoff_sleeps initial_world + 4 \<and>
                sent w' = sent initial_world + 5"
    using retry_on_server_errors [of default_config "mocked [500, 500, 500, 500, 500] (Some ())"
        initial_world "?r 500" "?r 500" "?r 500" "?r 500" "?r 500"] cfg
    by (simp add: mocked_def w0)
  from a b show ?thesis by (auto simp: w0)
qed

subsection \<open>Client errors\<close>

lemma client_errors_exhaust_retries:
  assumes "max_retries cfg = 5" and "0 \<le> base_backoff cfg"
    and "\<And>n. ep n = Answered r"
    and "400 \<le> status_code r" and "status_code r < 500" and "status_code r \<noteq> 429"
  shows "\<exists>w'. make_request_with_retry cfg ep w = (Inl (HTTPError (status_code r)), w') \<and>
           sent w' = sent w + 5 \<and> backoff_sleeps w' = backoff_sleeps w + 4"
proof -
  from attempt_once_client_error [of ep w r 0 cfg] assms
  obtain w1 where a0: "attempt_once cfg ep 0 w = (Continue, w1)"
    and s1: "sent w1 = sent w + 1" and b1: "backoff_sleeps w1 = backoff_sleeps w + 1"
    by auto
  from attempt_once_client_error [of ep w1 r 1 cfg] assms
  obtain w2 where a1: "attempt_once cfg ep 1 w1 = (Continue, w2)"
    and s2: "sent w2 = sent w1 + 1" and b2: "backoff_sleeps w2 = backoff_sleeps w1 + 1"
    by auto
  from attempt_once_client_error [of ep w2 r 2 cfg] assms
  obtain w3 where a2: "attempt_once cfg ep 2 w2 = (Continue, w3)"
    and s3: "sent w3 = sent w2 + 1" and b3: "backoff_sleeps w3 = backoff_sleeps w2 + 1"
    by auto
  from attempt_once_client_error [of ep w3 r 3 cfg] assms
  obtain w4 where a3: "attempt_once cfg ep 3 w3 = (Continue, w4)"
    and s4: "sent w4 = sent w3 + 1" and b4: "backoff_sleeps w4 = backoff_sleeps w3 + 1"
    by auto
  from attempt_once_last_error [of ep w4 r 4 cfg] assms
  obtain w5 where a4: "attempt_once cfg ep 4 w4 = (Raise (HTTPError (status_code r)), w5)"
    and s5: "sent w5 = sent w4 + 1" and b5: "backoff_sleeps w5 = backoff_sleeps w4"
    by auto
  from retry_loop_Continue [OF _ a0] retry_loop_Continue [OF _ a1] retry_loop_Continue [OF _ a2]
    retry_loop_Continue [OF _ a3] retry_loop_Raise [OF _ a4] assms(1)
  have "make_request_with_retry cfg ep w = (Inl (HTTPError (status_code r)), w5)"
    by (simp add: make_request_with_retry_def)
  with s1 s2 s3 s4 s5 b1 b2 b3 b4 b5 show ?thesis by simp
qed

text \<open>
  Claim C2 does not hold of the code. \<open>raise_for_status\<close> is called inside the \<open>try\<close>
  block and its \<open>HTTPError\<close> is a \<open>RequestException\<close>, so the handler catches the client
  error and retries it like a network failure, against the comment on that line: after
  the responses 404, 200 the caller gets the second response, from a second request and
  after a backoff sleep; five responses 404 cost five requests.
\<close>

theorem client_error_is_retried:
  "fst (make_request_with_retry default_config (mocked [404, 200] (Some ())) initial_world) =
     Inr \<lparr>status_code = 200, retry_after = NoHeader, json = Some ()\<rparr> \<and>
   sent (snd (make_request_with_retry default_config
                (mocked [404, 200] (Some ())) initial_world)) = 2 \<and>
   backoff_sleeps (snd (make_request_with_retry default_config
                          (mocked [404, 200] (Some ())) initial_world)) = 1 \<and>
   fst (make_request_with_retry default_config
          (mocked [404, 404, 404, 404, 404] (Some ())) initial_world) = Inl (HTTPError 404) \<and>
   sent (snd (make_request_with_retry default_config
                (mocked [404, 404, 404, 404, 404] (Some ())) initial_world)) = 5"
proof -
  let ?r = "\<lambda>c. \<lparr>status_code = c, retry_after = NoHeader, json = Some ()\<rparr>"
  let ?cfg = default_config
  have w0: "sent initial_world = 0" "backoff_sleeps initial_world = 0"
    by (simp_all add: initial_world_def backoff_sleeps_def)
  have cfg: "max_retries ?cfg = 5" "0 \<le> base_backoff ?cfg"
    by (simp_all add: default_config_def)
  have first: "\<exists>w'. attempt_once ?cfg (mocked cs (Some ())) 0 initial_world = (Continue, w') \<and>
      sent w' = 1 \<and> backoff_sleeps w' = 1" if "cs ! 0 = 404" "0 < length cs" for cs
    using attempt_once_client_error [of "mocked cs (Some ())" initial_world "?r 404" 0 ?cfg] cfg that
    by (simp add: mocked_def w0)
  have "\<exists>w'. make_request_with_retry ?cfg (mocked [404, 200] (Some ())) initial_world =
               (Inr (?r 200), w') \<and> sent w' = 2 \<and> backoff_sleeps w' = 1"
  proof -
    let ?ep = "mocked [404, 200] (Some ())"
    from first [of "[404, 200]"] obtain w1 where
      a0: "attempt_once ?cfg ?ep 0 initial_world = (Continue, w1)"
      and s1: "sent w1 = 1" and b1: "backoff_sleeps w1 = 1"
      by auto
    from attempt_once_success [of ?ep w1 "?r 200" ?cfg 1] s1
    obtain w2 where a1: "attempt_once ?cfg ?ep 1 w1 = (Return (?r 200), w2)"
      and s2: "sent w2 = sent w1 + 1" and b2: "backoff_sleeps w2 = backoff_sleeps w1"
      by (auto simp: mocked_def)
    from retry_loop_Continue [OF _ a0] retry_loop_Return [OF _ a1] cfg(1)
    have "make_request_with_retry ?cfg ?ep initial_world = (Inr (?r 200), w2)"
      by (simp add: make_request_with_retry_def)
    with s1 s2 b1 b2 show ?thesis by simp
  qed
  moreover
  have "\<exists>w'. make_request_with_retry ?cfg (mocked [404, 404, 404, 404, 404] (Some ())) initial_world =
               (Inl (HTTPError 404), w') \<and> sent w' = 5"
  proof -
    let ?ep = "mocked [404, 404, 404, 404, 404] (Some ())"
    from first [of "[404, 404, 404, 404, 404]"] obtain w1 where
      a0: "attempt_once ?cfg ?ep 0 initial_world = (Continue, w1)" and s1: "sent w1 = 1"
      by auto
    from attempt_once_client_error [of ?ep w1 "?r 404" 1 ?cfg] cfg s1
    obtain w2 where a1: "attempt_once ?cfg ?ep 1 w1 = (Continue, w2)" and s2: "sent w2 = 2"
      by (auto simp: mocked_def)
    from attempt_once_client_error [of ?ep w2 "?r 404" 2 ?cfg] cfg s2
    obtain w3 where a2: "attempt_once ?cfg ?ep 2 w2 = (Continue, w3)" and s3: "sent w3 = 3"
      by (auto simp: mocked_def)
    from attempt_once_client_error [of ?ep w3 "?r 404" 3 ?cfg] cfg s3
    obtain w4 where a3: "attempt_once ?cfg ?ep 3 w3 = (Continue, w4)" and s4: "sent w4 = 4"
      by (auto simp: mocked_def)
    from attempt_once_last_error [of ?ep w4 "?r 404" 4 ?cfg] cfg s4
    obtain w5 where a4: "attempt_once ?cfg ?ep 4 w4 = (Raise (HTTPError 404), w5)"
      and s5: "sent w5 = 5"
      by (auto simp: mocked_def)
    from retry_loop_Continue [OF _ a0] retry_loop_Continue [OF _ a1] retry_loop_Continue [OF _ a2]
      retry_loop_Continue [OF _ a3] retry_loop_Raise [OF _ a4] cfg(1)
    have "make_request_with_retry ?cfg ?ep initial_world = (Inl (HTTPError 404), w5)"
      by (simp add: make_request_with_retry_def)
    with s5 show ?thesis by simp
  qed
  ultimately show ?thesis by auto
qed

section \<open>Properties of the fetcher\<close>

lemma retry_after_wait_negative:
  "(real_of_int n + (1 / 10 + 2 * unit_interval x / 5) < 0) = (n < 0)"
proof -
  have u: "0 \<le> unit_interval x" "unit_interval x \<le> 1" by (rule unit_interval_bounds)+
  have "n < 0 \<longleftrightarrow> n \<le> - 1" by linarith
  also have "\<dots> \<longleftrightarrow> real_of_int n \<le> - 1"
    using of_int_le_iff [of n "- 1", where ?'a = real] by simp
  finally have "n < 0 \<longleftrightarrow> real_of_int n \<le> - 1" .
  with u show ?thesis by auto
qed

lemma default_wait_not_negative: "\<not> 601 / 10 + 2 * unit_interval x / 5 < 0"
  using unit_interval_bounds(1) [of x] by simp

lemma backoff_and_continue_fst:
  assumes "0 \<le> base_backoff cfg"
  shows "fst (backoff_and_continue cfg attempt w) = Continue"
  by (simp add: backoff_and_continue_ok [OF assms])

lemma raised_in_try_fst:
  assumes "0 \<le> base_backoff cfg"
  shows "fst (raised_in_try cfg e attempt w1) = fst (raised_in_try cfg e attempt w2)"
  by (simp add: raised_in_try_def except_RequestException_def backoff_and_continue_fst [OF assms])

lemma attempt_once_fst:
  assumes "0 \<le> base_backoff cfg" and "stateless ep"
  shows "fst (attempt_once cfg ep attempt w1) = fst (attempt_once cfg ep attempt w2)"
proof -
  have ep: "ep (sent (rate_limit cfg w1)) = ep 0" "ep (sent (rate_limit cfg w2)) = ep 0"
    using assms(2) by (simp_all add: stateless_def)
  show ?thesis
  proof (cases "ep 0")
    case Raised
    with ep show ?thesis
      by (simp add: attempt_once_def session_request_def raised_in_try_fst [OF assms(1)])
  next
    case (Answered r)
    show ?thesis
    proof (cases "status_code r = 429")
      case True
      with Answered ep show ?thesis
        by (cases "retry_after r")
          (simp_all add: attempt_once_def session_request_def uniform_def sleep_def
            retry_after_wait_negative default_wait_not_negative raised_in_try_def)
    next
      case False
      with Answered ep show ?thesis
        by (auto simp: attempt_once_def session_request_def raised_in_try_def
            except_RequestException_def backoff_and_continue_ok [OF assms(1)]
            split: option.splits)
    qed
  qed
qed

lemma retry_loop_fst:
  assumes "0 \<le> base_backoff cfg" and "stateless ep"
  shows "fst (retry_loop cfg ep attempt w1) = fst (retry_loop cfg ep attempt w2)"
proof (induction "nat (max_retries cfg - attempt)" arbitrary: attempt w1 w2)
  case 0
  then show ?case by (simp add: retry_loop.simps)
next
  case (Suc k)
  then have lt: "attempt < max_retries cfg" and k: "k = nat (max_retries cfg - (attempt + 1))"
    by linarith+
  obtain p1 v1 where a1: "attempt_once cfg ep attempt w1 = (p1, v1)" by fastforce
  obtain p2 v2 where a2: "attempt_once cfg ep attempt w2 = (p2, v2)" by fastforce
  from attempt_once_fst [OF assms, of attempt w1 w2] a1 a2 have p: "p2 = p1" by simp
  show ?case
  proof (cases p1)
    case Continue
    with a1 a2 p lt Suc.hyps(1) [OF k, of v1 v2] show ?thesis
      by (simp add: retry_loop.simps [of cfg ep attempt])
  qed (use a1 a2 p lt in \<open>simp_all add: retry_loop.simps [of cfg ep attempt]\<close>)
qed

lemma make_request_with_retry_fst:
  assumes "0 \<le> base_backoff cfg" and "stateless ep"
  shows "fst (make_request_with_retry cfg ep w1) = fst (make_request_with_retry cfg ep w2)"
  unfolding make_request_with_retry_def by (rule retry_loop_fst [OF assms])

declare search_loop.simps [simp del]

lemma search_loop_fst:
  assumes "0 \<le> base_backoff cfg" and "stateless_search srv jql"
  shows "fst (search_loop cfg srv jql max_results issues start_at w1) =
         fst (search_loop cfg srv jql max_results issues start_at w2)"
proof (induction "nat (max_results - int (length issues))" arbitrary: issues start_at w1 w2
    rule: less_induct)
  case less
  let ?ep = "search srv jql (min (max_results - int (length issues)) 100) start_at"
  have ep: "stateless ?ep"
    using assms(2) by (simp add: stateless_search_def)
  obtain x1 v1 where r1: "make_request_with_retry cfg ?ep w1 = (x1, v1)" by fastforce
  obtain x2 v2 where r2: "make_request_with_retry cfg ?ep w2 = (x2, v2)" by fastforce
  from make_request_with_retry_fst [OF assms(1) ep, of w1 w2] r1 r2 have x: "x2 = x1" by simp
  show ?case
  proof (cases "int (length issues) < max_results")
    case False
    then show ?thesis by (simp add: search_loop.simps [of _ _ _ _ issues])
  next
    case True
    show ?thesis
    proof (cases x1)
      case (Inl e)
      with True r1 r2 x show ?thesis
        by (simp add: search_loop.simps [of _ _ _ _ issues])
    next
      case (Inr response)
      show ?thesis
      proof (cases "json response")
        case None
        with Inr True r1 r2 x show ?thesis
          by (simp add: search_loop.simps [of _ _ _ _ issues])
      next
        case (Some data)
        show ?thesis
        proof (cases "length (page_issues data) = 0 \<or>
                    (case page_total data of None \<Rightarrow> 0 | Some n \<Rightarrow> n)
                      \<le> int (length (issues @ page_issues data))")
          case stop: True
          with Some Inr True r1 r2 x show ?thesis
            by (simp add: search_loop.simps [of _ _ _ _ issues])
        next
          case go: False
          then have "nat (max_results - int (length (issues @ page_issues data)))
                       < nat (max_results - int (length issues))"
            using True by auto
          from less [OF this, of "start_at + int (length (page_issues data))" v1 v2]
            go Some Inr True r1 r2 x
          show ?thesis
            by (simp add: search_loop.simps [of _ _ _ _ issues])
        qed
      qed
    qed
  qed
qed

text \<open>
  Claim C8: when the token-cursor strategy raises, whatever the exception and wherever it
  is raised, \<open>get_issues\<close> returns what the loop of the offset strategy returns when
  started with no issues at offset 0, in the world the failed strategy has left. When
  the offset endpoint answers from the arguments of the request alone, that is the
  result of the offset strategy run alone.
\<close>

theorem fallback_is_offset_strategy:
  assumes "get_issues_v3_jql cfg srv jql max_results w = Some (Inl e, w')"
  shows "get_issues cfg srv jql max_results w =
           Some (search_loop cfg srv jql max_results [] 0 w') \<and>
         (0 \<le> base_backoff cfg \<longrightarrow> stateless_search srv jql \<longrightarrow>
            map_option fst (get_issues cfg srv jql max_results w) =
              Some (fst (get_issues_v3_search cfg srv jql max_results w)))"
proof (intro conjI impI)
  from assms show g: "get_issues cfg srv jql max_results w =
      Some (search_loop cfg srv jql max_results [] 0 w')"
    by (simp add: get_issues_def get_issues_v3_search_def)
  assume "0 \<le> base_backoff cfg" "stateless_search srv jql"
  from search_loop_fst [OF this, of max_results "[]" 0 w' w] g
  show "map_option fst (get_issues cfg srv jql max_results w) =
          Some (fst (get_issues_v3_search cfg srv jql max_results w))"
    by (simp add: get_issues_v3_search_def)
qed

lemma jql_gone:
  "\<exists>w'. get_issues_v3_jql default_config offset_only_server jql 10 initial_world =
          Some (Inl (HTTPError 410), w')"
proof -
  let ?r = "\<lparr>status_code = 410, retry_after = NoHeader, json = None :: jql_page option\<rparr>"
  let ?ep = "search_jql offset_only_server jql (min (10 - int (length ([] :: issue list))) 100) None"
  have "\<exists>w'. make_request_with_retry default_config ?ep initial_world =
               (Inl (HTTPError (status_code ?r)), w') \<and>
             sent w' = sent initial_world + 5 \<and>
             backoff_sleeps w' = backoff_sleeps initial_world + 4"
    by (rule client_errors_exhaust_retries)
       (simp_all add: default_config_def offset_only_server_def)
  then obtain w' where
    "make_request_with_retry default_config ?ep initial_world = (Inl (HTTPError 410), w')"
    by auto
  then have "get_issues_v3_jql default_config offset_only_server jql 10 initial_world =
               Some (Inl (HTTPError 410), w')"
    by (simp add: get_issues_v3_jql_def jql_loop.simps [of _ _ _ _ "[]"])
  then show ?thesis by blast
qed

lemma search_serves_project:
  "fst (get_issues_v3_search default_config offset_only_server jql 10 w) = Inr project_issues"
proof -
  let ?page = "\<lparr>page_issues = project_issues, page_total = Some 3\<rparr>"
  let ?r = "\<lparr>status_code = 200, retry_after = NoHeader, json = Some ?page\<rparr>"
  let ?ep = "search offset_only_server jql (min (10 - int (length ([] :: issue list))) 100) 0"
  have ep: "?ep (sent w) = Answered ?r"
    by (simp add: offset_only_server_def project_issues_def)
  from attempt_once_success [of ?ep w ?r default_config 0] ep
  obtain w' where "attempt_once default_config ?ep 0 w = (Return ?r, w')" by auto
  from retry_loop_Return [OF _ this]
  have "make_request_with_retry default_config ?ep w = (Inr ?r, w')"
    by (simp add: make_request_with_retry_def default_config_def)
  then show ?thesis
    by (simp add: get_issues_v3_search_def search_loop.simps [of _ _ _ _ "[]"] project_issues_def)
qed

lemma offset_only_server_stateless: "stateless_search offset_only_server jql"
  by (simp add: stateless_search_def stateless_def offset_only_server_def)

theorem fallback_is_offset_strategy_witness:
  "map_option fst (get_issues default_config offset_only_server ''project = PROJ'' 10 initial_world) =
     Some (Inr project_issues) \<and>
   fst (get_issues_v3_search default_config offset_only_server ''project = PROJ'' 10 initial_world) =
     Inr project_issues"
proof -
  from jql_gone obtain w' where
    j: "get_issues_v3_jql default_config offset_only_server ''project = PROJ'' 10 initial_world =
          Some (Inl (HTTPError 410), w')"
    by blast
  have b: "0 \<le> base_backoff default_config" by (simp add: default_config_def)
  have s: "stateless_search offset_only_server ''project = PROJ''"
    by (rule offset_only_server_stateless)
  from fallback_is_offset_strategy [OF j] b s
  have "map_option fst (get_issues default_config offset_only_server ''project = PROJ'' 10
                          initial_world) =
          Some (fst (get_issues_v3_search default_config offset_only_server ''project = PROJ'' 10
                       initial_world))"
    by blast
  then show ?thesis
    by (simp only: search_serves_project)
qed

section \<open>Properties of the assembler\<close>

lemma assemble_days:
  assumes "assemble lib now_at S i issues = Inr metrics"
  shows "\<forall>m\<in>set metrics.
           cycle_time_days m = (if 0 < cycle_time_hours m then cycle_time_hours m / 24 else 0) \<and>
           0 \<le> cycle_time_days m"
  using assms
proof (induction issues arbitrary: i metrics)
  case Nil
  then show ?case by simp
next
  case (Cons issue issues)
  from Cons.prems obtain ct ps rest where
    rest: "assemble lib now_at S (i + 1) issues = Inr rest"
    and m: "metrics =
      \<lparr>m_key = key issue, m_summary = summary issue, m_status = status_name issue,
        m_created = fields_created issue, m_resolved = resolutiondate issue,
        m_assignee = assignee issue, m_priority = priority issue,
        m_issue_type = issuetype issue,
        cycle_time_hours = ct,
        cycle_time_days = (if ct > 0 then ct / 24 else 0),
        m_status_periods = ps\<rparr> # rest"
    by (auto split: sum.splits)
  from Cons.IH [OF rest] m show ?case by simp
qed

text \<open>
  Claim C10: in every record \<open>extract_metrics\<close> returns, \<open>cycle_time_days\<close> is
  \<open>cycle_time_hours / 24\<close> when the hours are positive and 0 otherwise, so it is never
  negative.
\<close>

theorem cycle_time_days_of_metric:
  assumes "extract_metrics lib now_at S cfg srv jql max_results w = Some (Inr metrics, w')"
  shows "\<forall>m\<in>set metrics.
           cycle_time_days m = (if 0 < cycle_time_hours m then cycle_time_hours m / 24 else 0) \<and>
           0 \<le> cycle_time_days m"
proof -
  from assms obtain issues where "assemble lib now_at S 0 issues = Inr metrics"
    by (auto simp: extract_metrics_def split: option.splits sum.splits prod.splits)
  then show ?thesis by (rule assemble_days)
qed

theorem cycle_time_days_of_metric_witness:
  "\<exists>metrics w'.
     extract_metrics ref_lib (\<lambda>i. clock_10) default_statuses default_config offset_only_server
       ''project = PROJ'' 10 initial_world = Some (Inr metrics, w') \<and>
     map (\<lambda>m. (m_key m, cycle_time_hours m, cycle_time_days m)) metrics =
       [(''PROJ-1'', 48, 2), (''PROJ-2'', 24, 1), (''PROJ-6'', - 24, 0)] \<and>
     (\<forall>m\<in>set metrics.
        cycle_time_days m = (if 0 < cycle_time_hours m then cycle_time_hours m / 24 else 0) \<and>
        0 \<le> cycle_time_days m)"
proof -
  let ?q = "''project = PROJ''"
  from jql_gone obtain w1 where
    j: "get_issues_v3_jql default_config offset_only_server ?q 10 initial_world =
          Some (Inl (HTTPError 410), w1)"
    by blast
  obtain w2 where
    s: "get_issues_v3_search default_config offset_only_server ?q 10 w1 = (Inr project_issues, w2)"
    using search_serves_project [of ?q w1] by (metis prod.collapse)
  have a: "map_sum id (map (\<lambda>m. (m_key m, cycle_time_hours m, cycle_time_days m)))
             (assemble ref_lib (\<lambda>i. clock_10) default_statuses 0 project_issues) =
           Inr [(''PROJ-1'', 48, 2), (''PROJ-2'', 24, 1), (''PROJ-6'', - 24, 0)]"
    by code_simp
  then obtain metrics where
    ms: "assemble ref_lib (\<lambda>i. clock_10) default_statuses 0 project_issues = Inr metrics"
    and proj: "map (\<lambda>m. (m_key m, cycle_time_hours m, cycle_time_days m)) metrics =
           [(''PROJ-1'', 48, 2), (''PROJ-2'', 24, 1), (''PROJ-6'', - 24, 0)]"
    by (cases "assemble ref_lib (\<lambda>i. clock_10) default_statuses 0 project_issues") auto
  from j s ms have e: "extract_metrics ref_lib (\<lambda>i. clock_10) default_statuses default_config
      offset_only_server ?q 10 initial_world = Some (Inr metrics, w2)"
    by (simp add: extract_metrics_def get_issues_def)
  from cycle_time_days_of_metric [OF e] e proj
  have "extract_metrics ref_lib (\<lambda>i. clock_10) default_statuses default_config offset_only_server
       ?q 10 initial_world = Some (Inr metrics, w2) \<and>
     map (\<lambda>m. (m_key m, cycle_time_hours m, cycle_time_days m)) metrics =
       [(''PROJ-1'', 48, 2), (''PROJ-2'', 24, 1), (''PROJ-6'', - 24, 0)] \<and>
     (\<forall>m\<in>set metrics.
        cycle_time_days m = (if 0 < cycle_time_hours m then cycle_time_hours m / 24 else 0) \<and>
        0 \<le> cycle_time_days m)"
    by (intro conjI)
  then show ?thesis by (intro exI)
qed

end
